theory Spec2Isabelle
  imports Complex_Main
begin

section \<open>JSON values and the JavaScript operations the services apply to them\<close>

text \<open>
  Request bodies, JSONB columns and webhook payloads are JSON documents. A number is a
  \<^typ>\<open>real\<close>: the services only compare numbers and print them, they do no arithmetic,
  and a JSON document cannot carry NaN. An object is the association list of its
  properties as parsed (a name occurs once).
\<close>

datatype json =
    JNull
  | JBool bool
  | JNum real
  | JStr string
  | JArr "json list"
  | JObj "(string \<times> json) list"

text \<open>
  \<open>property v k\<close> is the property read \<open>v.k\<close> for the property names the services use
  (\<open>event_type\<close>, \<open>script\<close>, \<open>service\<close>, \<open>device_id\<close>, ...): \<open>None\<close> is JavaScript's
  \<open>undefined\<close>, which is what reading such a name from a number, a string, a boolean
  or an array gives. Reading a property of \<open>null\<close> throws instead; the one place where
  a handler can meet \<open>null\<close> there, the loop of \<open>POST /api/workflows\<close>, tests for it first.
\<close>

fun property :: "json \<Rightarrow> string \<Rightarrow> json option" where
  "property (JObj kvs) k = map_of kvs k"
| "property _ k = None"

text \<open>JavaScript truthiness, as used by \<open>!x\<close>, \<open>x || y\<close> and \<open>if (x)\<close>.\<close>

fun truthy :: "json option \<Rightarrow> bool" where
  "truthy None = False"
| "truthy (Some JNull) = False"
| "truthy (Some (JBool b)) = b"
| "truthy (Some (JNum n)) = (n \<noteq> 0)"
| "truthy (Some (JStr s)) = (s \<noteq> [])"
| "truthy (Some (JArr xs)) = True"
| "truthy (Some (JObj kvs)) = True"

text \<open>\<open>x ?? d\<close>: the default replaces \<open>undefined\<close> and \<open>null\<close> only.\<close>

fun nullish :: "json option \<Rightarrow> json \<Rightarrow> json" where
  "nullish None d = d"
| "nullish (Some JNull) d = d"
| "nullish (Some v) d = v"

text \<open>
  Three conversions belong to the platform and not to the repository; they are
  parameters of the model. \<open>toString\<close> is the string a template literal inserts for a
  value that is not a string; \<open>paramText\<close> is the text the database driver sends for a
  TEXT query parameter that is not a string; \<open>paramInteger\<close> is the integer the store
  reads from what the driver sends for an INTEGER query parameter that is not a number
  (\<open>None\<close>: the store rejects it and the statement throws). A string is inserted, and
  sent, as it is; a whole number in the range of an INTEGER column is that integer, and
  any other number is rejected.
\<close>

record platform =
  toString :: "json \<Rightarrow> string"
  paramText :: "json \<Rightarrow> string"
  paramInteger :: "json \<Rightarrow> int option"

fun template :: "platform \<Rightarrow> json \<Rightarrow> string" where
  "template rt (JStr s) = s"
| "template rt v = toString rt v"


fun integerParam :: "platform \<Rightarrow> json \<Rightarrow> int option" where
  "integerParam rt (JNum n) =
     (if n = of_int \<lfloor>n\<rfloor> \<and> - 2147483648 \<le> n \<and> n \<le> 2147483647 then Some \<lfloor>n\<rfloor> else None)"
| "integerParam rt v = paramInteger rt v"

text \<open>An object literal as it is serialised: a property whose value is \<open>undefined\<close> is
  dropped.\<close>

definition object :: "(string \<times> json option) list \<Rightarrow> json" where
  "object props = JObj (List.map_filter (\<lambda>(k, v). map_option (Pair k) v) props)"



text \<open>
  What the \<open>try\<close> block of a handler can throw. Every \<open>pool.query\<close> can throw: the
  store is unreachable, or it rejects the statement. Reading a property of \<open>null\<close> throws
  a TypeError. The handlers catch either and answer 500.
\<close>

datatype thrown = DbError | TypeError


section \<open>Ingestion service: rule evaluation\<close>

text \<open>A row of \<open>alert_rules\<close> as \<open>evaluateRules\<close> selects it; the two TEXT columns without
  NOT NULL may be null.\<close>

record alert_rule =
  rule_id :: int
  rule_metric :: string
  rule_threshold :: real
  rule_comparison :: string
  rule_suggestion :: "string option"
  rule_description :: "string option"

text \<open>The payload \<open>evaluateRules\<close> hands to \<open>sendAlert\<close>.\<close>

record alert_intent =
  ai_device_id :: string
  ai_metric :: string
  ai_value :: real
  ai_threshold :: real
  ai_rule_id :: int
  ai_suggestion :: string
  ai_description :: string

text \<open>
  \<open>metrics: Record<string, number>\<close>: looking a name up gives \<open>None\<close> (\<open>undefined\<close>),
  \<open>Some None\<close> (\<open>null\<close>) or a number.
\<close>

type_synonym metrics = "string \<rightharpoonup> real option"

fun getDefaultSuggestion :: "string \<Rightarrow> string" where
  "getDefaultSuggestion metric =
     (if metric = ''cpu'' then
        ''Investigate high CPU usage by reviewing running processes and workloads.''
      else if metric = ''memory'' then
        ''Analyse memory consumption and optimise applications to reduce usage.''
      else if metric = ''disk'' then
        ''Check disk utilisation; free up space or expand storage as required.''
      else if metric = ''latency'' then
        ''Investigate network latency; verify connectivity and reduce load.''
      else
        ''Investigate the alert condition and take appropriate action.'')"

text \<open>
  \<open>sendAlert\<close> posts the payload to the alert service and catches a failed post itself,
  so the loop goes on either way. Its effect is recorded as the list of payloads posted,
  in the order of the calls.
\<close>

definition sendAlert :: "alert_intent list \<Rightarrow> alert_intent \<Rightarrow> alert_intent list" where
  "sendAlert sent payload = sent @ [payload]"

text \<open>The \<open>for (const rule of rules)\<close> loop of \<open>evaluateRules\<close>.\<close>

fun evaluateRules_loop ::
  "platform \<Rightarrow> string \<Rightarrow> metrics \<Rightarrow> alert_rule list \<Rightarrow> alert_intent list \<Rightarrow> alert_intent list"
where
  "evaluateRules_loop rt deviceId ms [] sent = sent"
| "evaluateRules_loop rt deviceId ms (rule # rules) sent =
     (case ms (rule_metric rule) of
        None \<Rightarrow> evaluateRules_loop rt deviceId ms rules sent
      | Some None \<Rightarrow> evaluateRules_loop rt deviceId ms rules sent
      | Some (Some v) \<Rightarrow>
          (let breach0 = False;
               breach1 = (if rule_comparison rule = ''gt'' \<and> v > rule_threshold rule
                          then True else breach0);
               breach = (if rule_comparison rule = ''lt'' \<and> v < rule_threshold rule
                         then True else breach1)
           in if breach then
                (let suggestion =
                       (case rule_suggestion rule of
                          Some s \<Rightarrow> s
                        | None \<Rightarrow> getDefaultSuggestion (rule_metric rule));
                     description =
                       (case rule_description rule of
                          Some d \<Rightarrow> d
                        | None \<Rightarrow> ''Metric '' @ rule_metric rule @ '' '' @ rule_comparison rule
                                   @ '' threshold '' @ template rt (JNum (rule_threshold rule)))
                 in evaluateRules_loop rt deviceId ms rules
                      (sendAlert sent
                         \<lparr> ai_device_id = deviceId, ai_metric = rule_metric rule, ai_value = v,
                           ai_threshold = rule_threshold rule, ai_rule_id = rule_id rule,
                           ai_suggestion = suggestion, ai_description = description \<rparr>))
              else evaluateRules_loop rt deviceId ms rules sent))"

text \<open>
  \<open>evaluateRules\<close>: the outcome of the SELECT on \<open>alert_rules\<close> is an argument. When the
  query throws, the \<open>catch\<close> logs the error and nothing is sent.
\<close>

definition evaluateRules ::
  "platform \<Rightarrow> string \<Rightarrow> metrics \<Rightarrow> thrown + alert_rule list \<Rightarrow> alert_intent list"
where
  "evaluateRules rt deviceId ms selected =
     (case selected of
        Inl err \<Rightarrow> []
      | Inr rules \<Rightarrow> evaluateRules_loop rt deviceId ms rules [])"

subsection \<open>The evaluator as the specification words it\<close>

text \<open>The comparison of a rule holds for an observed value.\<close>

definition comparison_holds :: "alert_rule \<Rightarrow> real \<Rightarrow> bool" where
  "comparison_holds r v \<longleftrightarrow>
     (rule_comparison r = ''gt'' \<and> v > rule_threshold r) \<or>
     (rule_comparison r = ''lt'' \<and> v < rule_threshold r)"

text \<open>The value at which a rule is breached: its metric is present, not null, and the
  comparison holds.\<close>

definition breach_value :: "metrics \<Rightarrow> alert_rule \<Rightarrow> real option" where
  "breach_value ms r =
     (case ms (rule_metric r) of
        Some (Some v) \<Rightarrow> if comparison_holds r v then Some v else None
      | _ \<Rightarrow> None)"

definition breached :: "metrics \<Rightarrow> alert_rule \<Rightarrow> bool" where
  "breached ms r \<longleftrightarrow> breach_value ms r \<noteq> None"

text \<open>Resolved suggestion: the rule's own, else the per-metric default, else the generic
  fallback.\<close>

definition default_table :: "(string \<times> string) list" where
  "default_table =
     [(''cpu'', ''Investigate high CPU usage by reviewing running processes and workloads.''),
      (''memory'', ''Analyse memory consumption and optimise applications to reduce usage.''),
      (''disk'', ''Check disk utilisation; free up space or expand storage as required.''),
      (''latency'', ''Investigate network latency; verify connectivity and reduce load.'')]"

definition generic_fallback :: string where
  "generic_fallback = ''Investigate the alert condition and take appropriate action.''"

definition resolved_suggestion :: "alert_rule \<Rightarrow> string" where
  "resolved_suggestion r =
     (case rule_suggestion r of
        Some s \<Rightarrow> s
      | None \<Rightarrow> (case map_of default_table (rule_metric r) of
                   Some d \<Rightarrow> d
                 | None \<Rightarrow> generic_fallback))"

text \<open>Resolved description: the rule's own, else \<open>Metric <metric> <comparison> threshold
  <threshold>\<close>.\<close>

definition resolved_description :: "platform \<Rightarrow> alert_rule \<Rightarrow> string" where
  "resolved_description rt r =
     (case rule_description r of
        Some d \<Rightarrow> d
      | None \<Rightarrow> ''Metric '' @ rule_metric r @ '' '' @ rule_comparison r @ '' threshold ''
                 @ template rt (JNum (rule_threshold r)))"

definition intent_for :: "platform \<Rightarrow> string \<Rightarrow> alert_rule \<Rightarrow> real \<Rightarrow> alert_intent" where
  "intent_for rt deviceId r v =
     \<lparr> ai_device_id = deviceId, ai_metric = rule_metric r, ai_value = v,
       ai_threshold = rule_threshold r, ai_rule_id = rule_id r,
       ai_suggestion = resolved_suggestion r, ai_description = resolved_description rt r \<rparr>"

text \<open>What one rule contributes: one intent when it is breached, nothing otherwise.\<close>

definition emitted_by :: "platform \<Rightarrow> string \<Rightarrow> metrics \<Rightarrow> alert_rule \<Rightarrow> alert_intent list" where
  "emitted_by rt deviceId ms r =
     (case breach_value ms r of
        Some v \<Rightarrow> [intent_for rt deviceId r v]
      | None \<Rightarrow> [])"


section \<open>Automation service: workflows, events and the audit log\<close>

text \<open>
  The three tables of \<open>ensureTables\<close>. A table is the list of its rows in insertion
  order. Columns the modelled handlers never read or write (\<open>created_at\<close>,
  \<open>executed_at\<close>, \<open>test_mode\<close>, the serial id of a log row) are left out. A JSONB column
  holds \<open>JNull\<close> for SQL NULL.
\<close>

record workflow_row =
  wf_id :: int
  wf_name :: string
  wf_event_type :: string
  wf_conditions :: json

record action_row =
  act_id :: int
  act_workflow_id :: "int option"
  act_action_type :: string
  act_parameters :: json

text \<open>The object \<open>doAction\<close> returns: \<open>{ action, status, message }\<close>.\<close>

record outcome =
  o_action :: string
  o_status :: string
  o_message :: string

record log_row =
  log_workflow_id :: "int option"
  log_event_data :: json
  log_result :: "outcome list"

text \<open>
  The store of the automation service. \<open>next_workflow_id\<close> and \<open>next_action_id\<close> are the
  sequences behind the two SERIAL columns the handlers rely on. Which statement is the
  first to throw is decided by the environment, not by the code: \<open>db_budget = Some n\<close>
  means the store executes the next \<open>n\<close> statements and throws on every later one (it
  became unreachable, or it rejects the statement); \<open>None\<close> means every statement is
  executed.
\<close>

record automation_db =
  workflows :: "workflow_row list"
  workflow_actions :: "action_row list"
  workflow_logs :: "log_row list"
  next_workflow_id :: int
  next_action_id :: int
  db_budget :: "nat option"

definition admits :: "automation_db \<Rightarrow> bool" where
  "admits db \<longleftrightarrow> db_budget db \<noteq> Some 0"

definition spend :: "automation_db \<Rightarrow> automation_db" where
  "spend db = db\<lparr> db_budget := map_option (\<lambda>n. n - 1) (db_budget db) \<rparr>"




text \<open>\<open>SELECT id, action_type, parameters FROM workflow_actions WHERE workflow_id = $1
  ORDER BY id ASC\<close>\<close>

definition stored_actions :: "automation_db \<Rightarrow> int \<Rightarrow> action_row list" where
  "stored_actions db workflowId =
     sort_key act_id (filter (\<lambda>a. act_workflow_id a = Some workflowId) (workflow_actions db))"

definition select_actions ::
  "automation_db \<Rightarrow> int \<Rightarrow> (thrown + action_row list) \<times> automation_db"
where
  "select_actions db workflowId =
     (if admits db then (Inr (stored_actions db workflowId), spend db)
      else (Inl DbError, db))"

text \<open>\<open>INSERT INTO workflow_logs (workflow_id, event_data, result) VALUES ($1, $2, $3)\<close>\<close>

definition insert_log ::
  "automation_db \<Rightarrow> int \<Rightarrow> json \<Rightarrow> outcome list \<Rightarrow> (thrown + unit) \<times> automation_db"
where
  "insert_log db workflowId event results =
     (if admits db then
        (Inr (),
         spend (db\<lparr> workflow_logs := workflow_logs db @
                   [\<lparr> log_workflow_id = Some workflowId, log_event_data = event,
                      log_result = results \<rparr>] \<rparr>))
      else (Inl DbError, db))"


text \<open>\<open>`${x || d}`\<close> in a template literal.\<close>

fun or_default :: "platform \<Rightarrow> json option \<Rightarrow> string \<Rightarrow> string" where
  "or_default rt None d = d"
| "or_default rt (Some v) d = (if truthy (Some v) then template rt v else d)"

text \<open>
  \<open>doAction\<close>: the \<open>switch\<close> on \<open>action.action_type\<close>, first matching case first. Only
  \<open>console.log\<close> reads the event, and console output is not part of the model.
\<close>

definition doAction :: "platform \<Rightarrow> action_row \<Rightarrow> json \<Rightarrow> bool \<Rightarrow> outcome" where
  "doAction rt action event testMode =
     (let kind = act_action_type action;
          params = (if truthy (Some (act_parameters action)) then act_parameters action
                    else JObj [])
      in if kind = ''run_script'' then
           \<lparr> o_action = kind, o_status = ''success'',
             o_message = ''script '' @ or_default rt (property params ''script'') ''executed'' \<rparr>
         else if kind = ''restart_service'' then
           \<lparr> o_action = kind, o_status = ''success'',
             o_message = ''service '' @ or_default rt (property params ''service'') ''restarted'' \<rparr>
         else if kind = ''isolate_device'' then
           \<lparr> o_action = kind, o_status = ''success'', o_message = ''device isolated'' \<rparr>
         else if kind = ''notify'' \<or> kind = ''send_notification'' then
           \<lparr> o_action = kind, o_status = ''success'', o_message = ''notification sent'' \<rparr>
         else if kind = ''create_ticket'' then
           \<lparr> o_action = kind, o_status = ''success'', o_message = ''ticket created'' \<rparr>
         else
           \<lparr> o_action = kind, o_status = ''unknown'', o_message = ''unknown action'' \<rparr>)"

text \<open>The \<open>for (const action of actions)\<close> loop of \<open>executeWorkflow\<close>, pushing each result.\<close>

fun executeWorkflow_loop ::
  "platform \<Rightarrow> json \<Rightarrow> bool \<Rightarrow> action_row list \<Rightarrow> outcome list \<Rightarrow> outcome list"
where
  "executeWorkflow_loop rt event testMode [] results = results"
| "executeWorkflow_loop rt event testMode (action # actions) results =
     executeWorkflow_loop rt event testMode actions
       (results @ [doAction rt action event testMode])"

text \<open>\<open>executeWorkflow\<close>: a statement that throws ends the call with the exception; what
  was written before stays written.\<close>

definition executeWorkflow ::
  "platform \<Rightarrow> automation_db \<Rightarrow> int \<Rightarrow> json \<Rightarrow> bool
     \<Rightarrow> (thrown + outcome list) \<times> automation_db"
where
  "executeWorkflow rt db workflowId event testMode =
     (case select_actions db workflowId of
        (Inl err, db1) \<Rightarrow> (Inl err, db1)
      | (Inr actions, db1) \<Rightarrow>
          (let results = executeWorkflow_loop rt event testMode actions []
           in if \<not> testMode then
                (case insert_log db1 workflowId event results of
                   (Inl err, db2) \<Rightarrow> (Inl err, db2)
                 | (Inr u, db2) \<Rightarrow> (Inr results, db2))
              else (Inr results, db1)))"

text \<open>The responses of the automation service, with their status codes.\<close>

datatype response =
    Created int "outcome list option"
  | Processed nat "(int \<times> outcome list) list"
  | TestResult "outcome list"
  | BadRequest string
  | InternalError

fun status :: "response \<Rightarrow> nat" where
  "status (Created workflowId testResult) = 201"
| "status (Processed n results) = 202"
| "status (TestResult result) = 200"
| "status (BadRequest msg) = 400"
| "status InternalError = 500"





text \<open>
  \<open>POST /api/workflows/test\<close>. \<open>executeWorkflow\<close> takes \<open>workflowId: number\<close> and hands it
  to the store as the INTEGER parameter of its SELECT; a \<open>workflow_id\<close> the store cannot
  read as an integer makes that statement throw.
\<close>

definition post_workflows_test ::
  "platform \<Rightarrow> automation_db \<Rightarrow> json \<Rightarrow> response \<times> automation_db"
where
  "post_workflows_test rt db body =
     (case property body ''workflow_id'' of
        None \<Rightarrow> (BadRequest ''workflow_id is required'', db)
      | Some workflow_id \<Rightarrow>
          if \<not> truthy (Some workflow_id) then (BadRequest ''workflow_id is required'', db)
          else
            (case integerParam rt workflow_id of
               None \<Rightarrow> (InternalError, db)
             | Some workflowId \<Rightarrow>
                 (case executeWorkflow rt db workflowId
                         (nullish (property body ''test_event'') (JObj [])) True of
                    (Inl err, db1) \<Rightarrow> (InternalError, db1)
                  | (Inr result, db1) \<Rightarrow> (TestResult result, db1))))"

text \<open>The action kinds \<open>doAction\<close> has a case for.\<close>

definition recognized_kinds :: "string list" where
  "recognized_kinds =
     [''run_script'', ''restart_service'', ''isolate_device'', ''notify'',
      ''send_notification'', ''create_ticket'']"


section \<open>Alert service: persisting an alert and notifying the channels\<close>















section \<open>Derived notions used to state the properties\<close>

text \<open>The outcome list of a workflow: its stored actions, in the order the SELECT returns
  them, each mapped to what \<open>doAction\<close> returns for it.\<close>

definition outcomes :: "platform \<Rightarrow> automation_db \<Rightarrow> int \<Rightarrow> json \<Rightarrow> bool \<Rightarrow> outcome list" where
  "outcomes rt db workflowId event testMode =
     map (\<lambda>a. doAction rt a event testMode) (stored_actions db workflowId)"

text \<open>The audit row of one execution: the workflow id, the event as submitted, and the
  outcome list.\<close>

definition audit_row :: "platform \<Rightarrow> automation_db \<Rightarrow> json \<Rightarrow> int \<Rightarrow> log_row" where
  "audit_row rt db event workflowId =
     \<lparr> log_workflow_id = Some workflowId, log_event_data = event,
       log_result = outcomes rt db workflowId event False \<rparr>"





text \<open>The object the handler posts to a webhook.\<close>

definition notification :: "json \<Rightarrow> json" where
  "notification body =
     object [(''device_id'', property body ''device_id''), (''metric'', property body ''metric''),
             (''value'', property body ''value''), (''threshold'', property body ''threshold''),
             (''suggestion'', property body ''suggestion''),
             (''description'', property body ''description'')]"








section \<open>Concrete scenarios\<close>

text \<open>A platform for the scenarios: it prints the number 85 as \<open>85\<close>.\<close>

definition sample_platform :: platform where
  "sample_platform =
     \<lparr> toString = (\<lambda>v. if v = JNum 85 then ''85'' else ''?''),
       paramText = (\<lambda>v. ''?''),
       paramInteger = (\<lambda>v. None) \<rparr>"

text \<open>Two workflows; the first has three actions, the middle one of a kind \<open>doAction\<close>
  does not know, and its rows are interleaved with the row of the second workflow.\<close>

definition sample_db :: automation_db where
  "sample_db =
     \<lparr> workflows =
         [\<lparr> wf_id = 1, wf_name = ''quarantine'', wf_event_type = ''disk_full'',
            wf_conditions = JNull \<rparr>,
          \<lparr> wf_id = 2, wf_name = ''revive'', wf_event_type = ''service_down'',
            wf_conditions = JObj [(''site'', JStr ''hq'')] \<rparr>],
       workflow_actions =
         [\<lparr> act_id = 1, act_workflow_id = Some 1, act_action_type = ''isolate_device'',
            act_parameters = JNull \<rparr>,
          \<lparr> act_id = 2, act_workflow_id = Some 2, act_action_type = ''restart_service'',
            act_parameters = JObj [(''service'', JStr ''nginx'')] \<rparr>,
          \<lparr> act_id = 3, act_workflow_id = Some 1, act_action_type = ''reboot_universe'',
            act_parameters = JNull \<rparr>,
          \<lparr> act_id = 4, act_workflow_id = Some 1, act_action_type = ''notify'',
            act_parameters = JObj [(''message'', JStr ''disk is full'')] \<rparr>],
       workflow_logs = [],
       next_workflow_id = 3,
       next_action_id = 5,
       db_budget = None \<rparr>"

definition sample_event :: json where
  "sample_event = JObj [(''event_type'', JStr ''disk_full''), (''device_id'', JStr ''d1'')]"




definition missing_test_request :: json where
  "missing_test_request = JObj [(''workflow_id'', JNum 99)]"










text \<open>The rule \<open>cpu > 85\<close> without texts of its own, and a sample with \<open>cpu = 92\<close>.\<close>

definition cpu_rule :: alert_rule where
  "cpu_rule =
     \<lparr> rule_id = 1, rule_metric = ''cpu'', rule_threshold = 85, rule_comparison = ''gt'',
       rule_suggestion = None, rule_description = None \<rparr>"

definition cpu_sample :: metrics where
  "cpu_sample = [''cpu'' \<mapsto> Some 92]"


section \<open>Properties of rule evaluation\<close>

lemma getDefaultSuggestion_table:
  "getDefaultSuggestion m =
     (case map_of default_table m of Some d \<Rightarrow> d | None \<Rightarrow> generic_fallback)"
  by (simp add: default_table_def generic_fallback_def)

lemma evaluateRules_loop_emitted:
  "evaluateRules_loop rt dev ms rules sent = sent @ concat (map (emitted_by rt dev ms) rules)"
proof (induction rules arbitrary: sent)
  case Nil
  show ?case by simp
next
  case (Cons r rules)
  show ?case
  proof (cases "ms (rule_metric r)")
    case None
    then show ?thesis
      by (simp add: Cons.IH emitted_by_def breach_value_def)
  next
    case (Some ov)
    show ?thesis
    proof (cases ov)
      case None
      with Some show ?thesis
        by (simp add: Cons.IH emitted_by_def breach_value_def)
    next
      case (Some v)
      with \<open>ms (rule_metric r) = Some ov\<close> show ?thesis
        by (simp add: Cons.IH emitted_by_def breach_value_def comparison_holds_def
            intent_for_def resolved_suggestion_def resolved_description_def sendAlert_def
            getDefaultSuggestion_table Let_def del: getDefaultSuggestion.simps
            split: option.splits)
    qed
  qed
qed

lemma evaluateRules_emitted:
  "evaluateRules rt dev ms (Inr rules) = concat (map (emitted_by rt dev ms) rules)"
  by (simp add: evaluateRules_def evaluateRules_loop_emitted)

lemma evaluateRules_append:
  "evaluateRules rt dev ms (Inr (rs1 @ rs2)) =
     evaluateRules rt dev ms (Inr rs1) @ evaluateRules rt dev ms (Inr rs2)"
  by (simp add: evaluateRules_emitted)

lemma emitted_by_rule_ids:
  "map ai_rule_id (concat (map (emitted_by rt dev ms) rules)) = map rule_id (filter (breached ms) rules)"
  by (induction rules) (auto simp: emitted_by_def breached_def intent_for_def split: option.splits)

lemma emitted_by_texts:
  "map (\<lambda>a. (ai_suggestion a, ai_description a)) (concat (map (emitted_by rt dev ms) rules)) =
   map (\<lambda>r. (resolved_suggestion r, resolved_description rt r)) (filter (breached ms) rules)"
  by (induction rules) (auto simp: emitted_by_def breached_def intent_for_def split: option.splits)

lemma cpu_breached: "breached cpu_sample cpu_rule"
  by (simp add: breached_def breach_value_def comparison_holds_def cpu_sample_def cpu_rule_def)

text \<open>
  Claim C1. Rule evaluation treats every rule on its own: the alerts of a rule set are
  the alerts of its rules, in order. One rule emits exactly one alert intent, carrying
  the device, the rule id, the metric, the observed value and the threshold, when its
  metric is in the map, is not null, and \<open>value > threshold\<close> holds for \<open>gt\<close> or
  \<open>value < threshold\<close> for \<open>lt\<close>; it emits nothing otherwise, in particular when the
  metric is absent. An empty rule set yields no alert.
\<close>

theorem evaluateRules_one_intent_per_breach:
  "evaluateRules rt dev ms (Inr []) = [] \<and>
   evaluateRules rt dev ms (Inr (rs1 @ rs2)) =
     evaluateRules rt dev ms (Inr rs1) @ evaluateRules rt dev ms (Inr rs2) \<and>
   map (\<lambda>a. (ai_device_id a, ai_rule_id a, ai_metric a, ai_value a, ai_threshold a))
       (evaluateRules rt dev ms (Inr [r])) =
     (case ms (rule_metric r) of
        None \<Rightarrow> []
      | Some None \<Rightarrow> []
      | Some (Some v) \<Rightarrow>
          if (rule_comparison r = ''gt'' \<and> v > rule_threshold r) \<or>
             (rule_comparison r = ''lt'' \<and> v < rule_threshold r)
          then [(dev, rule_id r, rule_metric r, v, rule_threshold r)] else []) \<and>
   map ai_rule_id (evaluateRules rt dev ms (Inr rules)) = map rule_id (filter (breached ms) rules)"
  by (simp add: evaluateRules_emitted emitted_by_rule_ids)
     (simp add: emitted_by_def breach_value_def comparison_holds_def intent_for_def
        split: option.splits)

theorem evaluateRules_one_intent_per_breach_witness:
  "map (\<lambda>a. (ai_device_id a, ai_rule_id a, ai_metric a, ai_value a, ai_threshold a))
       (evaluateRules sample_platform ''d1'' cpu_sample (Inr [cpu_rule])) =
     [(''d1'', 1, ''cpu'', 92, 85)] \<and>
   evaluateRules sample_platform ''d1'' Map.empty (Inr [cpu_rule]) = []"
proof -
  have a: "map (\<lambda>a. (ai_device_id a, ai_rule_id a, ai_metric a, ai_value a, ai_threshold a))
       (evaluateRules sample_platform ''d1'' cpu_sample (Inr [cpu_rule])) =
     [(''d1'', 1, ''cpu'', 92, 85)]"
    using evaluateRules_one_intent_per_breach
      [of sample_platform "''d1''" cpu_sample "[]" "[]" cpu_rule "[]",
        THEN conjunct2, THEN conjunct2, THEN conjunct1]
    by (simp add: cpu_sample_def cpu_rule_def)
  have "map (\<lambda>a. (ai_device_id a, ai_rule_id a, ai_metric a, ai_value a, ai_threshold a))
       (evaluateRules sample_platform ''d1'' Map.empty (Inr [cpu_rule])) = []"
    using evaluateRules_one_intent_per_breach
      [of sample_platform "''d1''" Map.empty "[]" "[]" cpu_rule "[]",
        THEN conjunct2, THEN conjunct2, THEN conjunct1]
    by simp
  then have b: "evaluateRules sample_platform ''d1'' Map.empty (Inr [cpu_rule]) = []"
    by simp
  show ?thesis
    by (intro conjI a b)
qed

text \<open>
  Claim C8. The suggestion of every emitted alert intent is the rule's own suggestion
  when that is not null, else the default of the per-metric table (cpu, memory, disk,
  latency), else the generic fallback; its description is the rule's own description when
  that is not null, else \<open>Metric <metric> <comparison> threshold <threshold>\<close>.
\<close>

theorem evaluateRules_resolved_texts:
  "map (\<lambda>a. (ai_suggestion a, ai_description a)) (evaluateRules rt dev ms (Inr rules)) =
     map (\<lambda>r. (case rule_suggestion r of
                  Some s \<Rightarrow> s
                | None \<Rightarrow> (case map_of default_table (rule_metric r) of
                             Some d \<Rightarrow> d
                           | None \<Rightarrow> generic_fallback),
                case rule_description r of
                  Some d \<Rightarrow> d
                | None \<Rightarrow> ''Metric '' @ rule_metric r @ '' '' @ rule_comparison r @
                           '' threshold '' @ template rt (JNum (rule_threshold r))))
         (filter (breached ms) rules)"
  using emitted_by_texts [of rt dev ms rules]
  by (simp add: evaluateRules_emitted resolved_suggestion_def resolved_description_def)

theorem evaluateRules_resolved_texts_witness:
  "map (\<lambda>a. (ai_suggestion a, ai_description a))
       (evaluateRules sample_platform ''d1'' cpu_sample (Inr [cpu_rule])) =
     [(''Investigate high CPU usage by reviewing running processes and workloads.'',
       ''Metric cpu gt threshold 85'')]"
  using evaluateRules_resolved_texts [of sample_platform "''d1''" cpu_sample "[cpu_rule]"]
  by (simp add: cpu_breached)
     (simp add: cpu_rule_def default_table_def sample_platform_def)


section \<open>Properties of workflow execution\<close>

lemma executeWorkflow_loop_map:
  "executeWorkflow_loop rt ev tm acts rs = rs @ map (\<lambda>a. doAction rt a ev tm) acts"
  by (induction acts arbitrary: rs) simp_all

lemma admits_unbounded: "db_budget db = None \<Longrightarrow> admits db"
  by (simp add: admits_def)

lemma spend_unbounded: "db_budget db = None \<Longrightarrow> spend db = db"
  by (cases db) (simp add: spend_def)



lemma stored_actions_logs [simp]:
  "stored_actions (db\<lparr> workflow_logs := ls \<rparr>) wid = stored_actions db wid"
  by (simp add: stored_actions_def)

lemma stored_actions_spend [simp]: "stored_actions (spend db) wid = stored_actions db wid"
  by (simp add: stored_actions_def spend_def)

lemma outcomes_logs [simp]:
  "outcomes rt (db\<lparr> workflow_logs := ls \<rparr>) wid ev tm = outcomes rt db wid ev tm"
  by (simp add: outcomes_def)

lemma audit_row_logs [simp]:
  "audit_row rt (db\<lparr> workflow_logs := ls \<rparr>) ev wid = audit_row rt db ev wid"
  by (simp add: audit_row_def)

lemma outcomes_spend [simp]: "outcomes rt (spend db) wid ev tm = outcomes rt db wid ev tm"
  by (simp add: outcomes_def)



lemma executeWorkflow_result:
  "fst (executeWorkflow rt db wid ev tm) = Inr rs \<Longrightarrow> rs = outcomes rt db wid ev tm"
  by (cases "admits db"; cases tm; cases "admits (spend db)")
     (auto simp: executeWorkflow_def select_actions_def insert_log_def executeWorkflow_loop_map
        outcomes_def Let_def)


lemma executeWorkflow_test:
  "executeWorkflow rt db wid ev True =
     (if admits db then (Inr (outcomes rt db wid ev True), spend db) else (Inl DbError, db))"
  by (simp add: executeWorkflow_def select_actions_def executeWorkflow_loop_map outcomes_def)



lemma stored_actions_none:
  assumes "\<forall>a \<in> set (workflow_actions db). act_workflow_id a \<noteq> Some wid"
  shows "stored_actions db wid = []"
proof -
  have "filter (\<lambda>a. act_workflow_id a = Some wid) (workflow_actions db) = []"
    using assms by (simp add: filter_empty_conv)
  then show ?thesis by (simp add: stored_actions_def)
qed

lemma doAction_status:
  "o_status (doAction rt a ev tm) =
     (if act_action_type a \<in> set recognized_kinds then ''success'' else ''unknown'')"
  by (simp add: doAction_def recognized_kinds_def Let_def)








lemma audit_row_spend [simp]: "audit_row rt (spend db) ev wid = audit_row rt db ev wid"
  by (simp add: audit_row_def)








subsection \<open>The scenario store\<close>



lemma sample_budget: "db_budget sample_db = None"
  by (simp add: sample_db_def)






subsection \<open>Submitting an event\<close>



subsection \<open>Defining a workflow\<close>











subsection \<open>Executing a workflow\<close>



text \<open>
  Claim C9. The status \<open>doAction\<close> returns is \<open>success\<close> when the action type is one of
  the recognized kinds and \<open>unknown\<close> otherwise; it is never a failure status.
\<close>

theorem doAction_status_success_or_unknown:
  "o_status (doAction rt a ev tm) =
     (if act_action_type a \<in> set recognized_kinds then ''success'' else ''unknown'') \<and>
   o_status (doAction rt a ev tm) \<noteq> ''failure'' \<and>
   o_status (doAction rt a ev tm) \<noteq> ''failed'' \<and>
   o_status (doAction rt a ev tm) \<noteq> ''error''"
  by (simp add: doAction_status)











lemma integerParam_whole:
  "- 2147483648 \<le> wid \<Longrightarrow> wid \<le> 2147483647 \<Longrightarrow>
   integerParam rt (JNum (of_int wid)) = Some wid"
  by simp

lemma post_workflows_test_run:
  assumes "property body ''workflow_id'' = Some (JNum (of_int wid))"
    and "wid \<noteq> 0" and "- 2147483648 \<le> wid" and "wid \<le> 2147483647" and "admits db"
  shows "post_workflows_test rt db body =
     (TestResult (outcomes rt db wid (nullish (property body ''test_event'') (JObj [])) True),
      spend db)"
  using assms
  by (simp add: post_workflows_test_def executeWorkflow_test integerParam_whole
      del: integerParam.simps)

text \<open>
  Claim C10. When no row of \<open>workflow_actions\<close> belongs to a workflow id, whether or not
  a workflow with that id exists, every execution that returns, returns the empty outcome
  list. \<open>POST /api/workflows/test\<close> with such an id (a non-zero whole number) answers 200
  with an empty result list, not a not-found error, whenever the store executes its
  SELECT, and writes no audit row.
\<close>

theorem executeWorkflow_without_actions:
  assumes "\<forall>a \<in> set (workflow_actions db). act_workflow_id a \<noteq> Some wid"
  shows "stored_actions db wid = [] \<and>
    (\<forall>rs. fst (executeWorkflow rt db wid ev tm) = Inr rs \<longrightarrow> rs = []) \<and>
    (admits db \<longrightarrow> executeWorkflow rt db wid ev True = (Inr [], spend db)) \<and>
    (admits db \<and> property body ''workflow_id'' = Some (JNum (of_int wid)) \<and> wid \<noteq> 0 \<and>
       - 2147483648 \<le> wid \<and> wid \<le> 2147483647 \<longrightarrow>
       post_workflows_test rt db body = (TestResult [], spend db) \<and>
       status (fst (post_workflows_test rt db body)) = 200 \<and>
       workflow_logs (snd (post_workflows_test rt db body)) = workflow_logs db)"
proof -
  have none: "stored_actions db wid = []"
    using assms by (rule stored_actions_none)
  have outs: "\<And>e m. outcomes rt db wid e m = []"
    by (simp add: outcomes_def none)
  have b: "\<forall>rs. fst (executeWorkflow rt db wid ev tm) = Inr rs \<longrightarrow> rs = []"
    using executeWorkflow_result [of rt db wid ev tm] by (simp add: outs)
  have c: "admits db \<longrightarrow> executeWorkflow rt db wid ev True = (Inr [], spend db)"
    by (simp add: executeWorkflow_test outs)
  have d: "admits db \<and> property body ''workflow_id'' = Some (JNum (of_int wid)) \<and> wid \<noteq> 0 \<and>
       - 2147483648 \<le> wid \<and> wid \<le> 2147483647 \<longrightarrow>
       post_workflows_test rt db body = (TestResult [], spend db) \<and>
       status (fst (post_workflows_test rt db body)) = 200 \<and>
       workflow_logs (snd (post_workflows_test rt db body)) = workflow_logs db"
    using post_workflows_test_run [of body wid db rt]
    by (simp add: outs spend_def)
  show ?thesis
    by (intro conjI none b c d)
qed

theorem executeWorkflow_without_actions_witness:
  "list_all (\<lambda>a. act_workflow_id a \<noteq> Some 99) (workflow_actions sample_db) \<and>
   99 \<notin> set (map wf_id (workflows sample_db)) \<and>
   admits sample_db \<and>
   stored_actions sample_db 99 = [] \<and>
   post_workflows_test sample_platform sample_db missing_test_request =
     (TestResult [], sample_db) \<and>
   status (fst (post_workflows_test sample_platform sample_db missing_test_request)) = 200"
proof -
  have h: "\<forall>a \<in> set (workflow_actions sample_db). act_workflow_id a \<noteq> Some 99"
    by (simp add: sample_db_def)
  have h': "list_all (\<lambda>a. act_workflow_id a \<noteq> Some 99) (workflow_actions sample_db)"
    using h by (simp add: list_all_iff)
  have nw: "99 \<notin> set (map wf_id (workflows sample_db))"
    by (simp add: sample_db_def)
  have ad: "admits sample_db"
    using sample_budget by (rule admits_unbounded)
  have sp: "spend sample_db = sample_db"
    using sample_budget by (rule spend_unbounded)
  have hyps: "admits sample_db \<and>
      property missing_test_request ''workflow_id'' = Some (JNum (of_int 99)) \<and>
      (99::int) \<noteq> 0 \<and> - 2147483648 \<le> (99::int) \<and> (99::int) \<le> 2147483647"
    using ad by (simp add: missing_test_request_def)
  note inst = executeWorkflow_without_actions [OF h, of sample_platform sample_event True missing_test_request]
  have none: "stored_actions sample_db 99 = []"
    using inst by (rule conjunct1)
  note run = inst [THEN conjunct2, THEN conjunct2, THEN conjunct2, THEN mp, OF hyps]
  have r1: "post_workflows_test sample_platform sample_db missing_test_request =
     (TestResult [], sample_db)"
    using run [THEN conjunct1] by (simp only: sp)
  have r2: "status (fst (post_workflows_test sample_platform sample_db missing_test_request)) = 200"
    using run [THEN conjunct2] by (rule conjunct1)
  show ?thesis
    by (intro conjI h' nw ad none r1 r2)
qed


section \<open>Properties of the alert service\<close>





















end
